theory Spec2Isabelle
  imports Main
begin

section \<open>Package logs: a process-wide logger on top of log/slog\<close>

text \<open>
  The development embeds \<^verbatim>\<open>logs/logs.go\<close>: the package variables
  (\<^verbatim>\<open>logger\<close>, \<^verbatim>\<open>once\<close>, \<^verbatim>\<open>currentCfg\<close>), the colour decorator
  \<^verbatim>\<open>colorHandler\<close>, \<^verbatim>\<open>Init\<close>, \<^verbatim>\<open>SetLogFile\<close>, \<^verbatim>\<open>get\<close> and the emission and
  derivation helpers. The package variables are threaded as a record \<open>globals\<close>; the
  operating system (the writers and the file system) is threaded as a record \<open>world\<close>.
  The model is sequential: the mutex \<^verbatim>\<open>mu\<close> is not represented, and \<^verbatim>\<open>once.Do\<close> is
  the flag \<open>once\<close> of the globals.

  The parts of the Go standard library the package calls (\<^verbatim>\<open>log/slog\<close> handlers and
  loggers, \<^verbatim>\<open>os.OpenFile\<close>) are not code of the package. They are modelled in the
  first two subsections, at the level of the entries a handler hands to its writer.
\<close>

subsection \<open>The environment: writers, files, written entries\<close>

text \<open>An \<^verbatim>\<open>io.Writer\<close>: the two console streams, a file opened at a path, or any
  other writer a caller supplies. A nil writer is \<open>None\<close> of \<open>writer option\<close>.\<close>

datatype writer = Stdout | Stderr | FileW string | OtherW nat

text \<open>\<^verbatim>\<open>slog.Level\<close> is an integer; the four named levels are 4 apart.\<close>

type_synonym Level = int

definition LevelDebug :: Level where "LevelDebug = - 4"
definition LevelInfo :: Level where "LevelInfo = 0"
definition LevelWarn :: Level where "LevelWarn = 4"
definition LevelError :: Level where "LevelError = 8"

text \<open>\<^verbatim>\<open>slog.Value\<close>: the zero value (kind Any holding nil), a group of attributes, or
  any other value, kept in rendered form. \<^verbatim>\<open>slog.Attr\<close> is a key with its value. A
  field of an output line is a key with a value that is not a group, together with the
  path of groups it is nested under (the text formatter joins the path and the key
  with dots, the JSON formatter nests objects).\<close>

datatype Value = NilValue | Scalar string | Group "(string \<times> Value) list"

type_synonym Attr = "string \<times> Value"
type_synonym field = "string list \<times> string \<times> Value"

text \<open>One line of output as a formatter hands it to the writer: which formatter
  produced it, and the time, level, message and fields it renders, in rendering order.\<close>

record entry =
  e_json :: bool
  e_time :: nat
  e_level :: Level
  e_msg :: string
  e_fields :: "field list"

text \<open>The world: for every writer the entries passed to its \<^verbatim>\<open>Write\<close> so far, in
  call order (\<open>None\<close> for a file that does not exist); the paths \<^verbatim>\<open>os.OpenFile\<close>
  cannot open; the writers whose \<^verbatim>\<open>Write\<close> returns an error; the clock.\<close>

record world =
  written :: "writer \<rightharpoonup> entry list"
  cannot_open :: "string \<Rightarrow> bool"
  write_fails :: "writer \<Rightarrow> bool"
  now :: nat

datatype error = PathError string | WriteError writer | NilWriter | NilLogger

text \<open>\<^verbatim>\<open>os.OpenFile(path, O_CREATE|O_WRONLY|O_APPEND, 0o644)\<close>: fails with a path error and
  no effect, or returns the file at \<open>path\<close>, created empty if it was missing and with its
  contents kept (no truncation; later writes append) if it was there.\<close>

definition OpenFile :: "string \<Rightarrow> world \<Rightarrow> (error + writer) \<times> world" where
  "OpenFile path wd =
     (if cannot_open wd path then (Inl (PathError path), wd)
      else (Inr (FileW path),
            wd\<lparr>written := (written wd)(FileW path \<mapsto>
                  (case written wd (FileW path) of None \<Rightarrow> [] | Some es \<Rightarrow> es))\<rparr>))"

text \<open>One \<^verbatim>\<open>Write\<close> call on a writer: the entry is appended to what the writer was
  handed, and the call reports an error for a failing writer. Writing through a nil
  writer is the failure \<open>NilWriter\<close> (a nil dereference in Go).\<close>

definition sink_write :: "writer option \<Rightarrow> entry \<Rightarrow> world \<Rightarrow> error option \<times> world" where
  "sink_write wo e wd =
     (case wo of
        None \<Rightarrow> (Some NilWriter, wd)
      | Some wr \<Rightarrow>
          (if write_fails wd wr then Some (WriteError wr) else None,
           wd\<lparr>written := (written wd)(wr \<mapsto>
                 (case written wd wr of None \<Rightarrow> [e] | Some es \<Rightarrow> es @ [e]))\<rparr>))"

subsection \<open>log/slog: records, the built-in handlers, loggers\<close>

text \<open>\<^verbatim>\<open>slog.Record\<close>: passed by value.\<close>

record Record =
  rTime :: nat
  rMessage :: string
  rLevel :: Level
  rAttrs :: "Attr list"

text \<open>\<^verbatim>\<open>Record.Clone\<close> returns a copy that shares no state with the original. Records
  are values here, so the copy is the record itself.\<close>

definition Clone :: "Record \<Rightarrow> Record" where
  "Clone r = r"

text \<open>The state shared by \<^verbatim>\<open>slog.TextHandler\<close> and \<^verbatim>\<open>slog.JSONHandler\<close>: the
  \<^verbatim>\<open>Level\<close> of the handler options (nil is \<open>None\<close>), the attributes bound by
  \<^verbatim>\<open>WithAttrs\<close> so far (already qualified by the groups open when they were bound),
  the groups opened by \<^verbatim>\<open>WithGroup\<close>, and the writer.\<close>

record commonHandler =
  ch_Level :: "Level option"
  ch_attrs :: "field list"
  ch_groups :: "string list"
  ch_w :: "writer option"

definition common_enabled :: "commonHandler \<Rightarrow> Level \<Rightarrow> bool" where
  "common_enabled c l =
     (let minLevel = (case ch_Level c of None \<Rightarrow> LevelInfo | Some lv \<Rightarrow> lv)
      in minLevel \<le> l)"

text \<open>\<^verbatim>\<open>Attr.isEmpty\<close> (empty key and the zero value), \<^verbatim>\<open>Value.isEmptyGroup\<close> and
  \<^verbatim>\<open>countEmptyGroups\<close>.\<close>

definition isEmpty :: "Attr \<Rightarrow> bool" where
  "isEmpty a = (fst a = [] \<and> snd a = NilValue)"

definition isEmptyGroup :: "Value \<Rightarrow> bool" where
  "isEmptyGroup v = (case v of Group attrs \<Rightarrow> attrs = [] | _ \<Rightarrow> False)"

definition countEmptyGroups :: "Attr list \<Rightarrow> nat" where
  "countEmptyGroups as = length (filter (\<lambda>a. isEmptyGroup (snd a)) as)"

text \<open>\<^verbatim>\<open>handleState.appendAttr\<close>, as the fields it renders under a prefix of groups: an
  empty attribute is elided; a group renders its members, under its key unless the key
  is empty (then the members are inlined), and a group without members renders
  nothing; any other attribute is one field.\<close>

fun appendAttr :: "string list \<Rightarrow> Attr \<Rightarrow> field list" where
  "appendAttr prefix (k, v) =
     (if isEmpty (k, v) then []
      else (case v of
              Group attrs \<Rightarrow>
                (if attrs \<noteq> []
                 then concat (map (appendAttr (if k \<noteq> [] then prefix @ [k] else prefix)) attrs)
                 else [])
            | _ \<Rightarrow> [(prefix, k, v)]))"

definition appendAttrs :: "string list \<Rightarrow> Attr list \<Rightarrow> field list" where
  "appendAttrs prefix as = concat (map (appendAttr prefix) as)"

text \<open>\<^verbatim>\<open>commonHandler.withAttrs\<close>: the receiver when every attribute is an empty group;
  otherwise the attributes are rendered under the open groups and kept.\<close>

definition common_withAttrs :: "commonHandler \<Rightarrow> Attr list \<Rightarrow> commonHandler" where
  "common_withAttrs c as =
     (if countEmptyGroups as = length as then c
      else c\<lparr>ch_attrs := ch_attrs c @ appendAttrs (ch_groups c) as\<rparr>)"

definition common_withGroup :: "commonHandler \<Rightarrow> string \<Rightarrow> commonHandler" where
  "common_withGroup c name = c\<lparr>ch_groups := ch_groups c @ [name]\<rparr>"

text \<open>The line a built-in handler renders for a record: the bound attributes first,
  then what the record's own attributes render to under the open groups.\<close>

definition common_line :: "bool \<Rightarrow> commonHandler \<Rightarrow> Record \<Rightarrow> entry" where
  "common_line js c r =
     \<lparr>e_json = js, e_time = rTime r, e_level = rLevel r, e_msg = rMessage r,
      e_fields = ch_attrs c @ appendAttrs (ch_groups c) (rAttrs r)\<rparr>"

subsection \<open>The colour decorator\<close>

definition colorReset :: string where "colorReset = CHR 0x1B # ''[0m''"
definition colorRed :: string where "colorRed = CHR 0x1B # ''[31m''"
definition colorYellow :: string where "colorYellow = CHR 0x1B # ''[33m''"
definition colorGreen :: string where "colorGreen = CHR 0x1B # ''[32m''"
definition colorBlue :: string where "colorBlue = CHR 0x1B # ''[34m''"

text \<open>A \<^verbatim>\<open>slog.Handler\<close> of this program: one of the two built-in formatters, or the
  package's \<^verbatim>\<open>colorHandler\<close> around another handler (its field \<^verbatim>\<open>h\<close>).\<close>

datatype handler =
    TextHandler commonHandler
  | JSONHandler commonHandler
  | colorHandler handler

definition NewTextHandler :: "writer option \<Rightarrow> Level option \<Rightarrow> handler" where
  "NewTextHandler wo lv =
     TextHandler \<lparr>ch_Level = lv, ch_attrs = [], ch_groups = [], ch_w = wo\<rparr>"

definition NewJSONHandler :: "writer option \<Rightarrow> Level option \<Rightarrow> handler" where
  "NewJSONHandler wo lv =
     JSONHandler \<lparr>ch_Level = lv, ch_attrs = [], ch_groups = [], ch_w = wo\<rparr>"

fun Enabled :: "handler \<Rightarrow> Level \<Rightarrow> bool" where
  "Enabled (TextHandler c) level = common_enabled c level"
| "Enabled (JSONHandler c) level = common_enabled c level"
| "Enabled (colorHandler h) level = Enabled h level"

fun Handle :: "handler \<Rightarrow> Record \<Rightarrow> world \<Rightarrow> error option \<times> world" where
  "Handle (TextHandler c) r wd = sink_write (ch_w c) (common_line False c r) wd"
| "Handle (JSONHandler c) r wd = sink_write (ch_w c) (common_line True c r) wd"
| "Handle (colorHandler h) r wd =
     (let rec = Clone r;
          color = (if LevelError \<le> rLevel rec then colorRed
                   else if LevelWarn \<le> rLevel rec then colorYellow
                   else if LevelInfo \<le> rLevel rec then colorGreen
                   else colorBlue);
          rec = (if color \<noteq> [] then rec\<lparr>rMessage := color @ rMessage rec @ colorReset\<rparr>
                 else rec)
      in Handle h rec wd)"

fun WithAttrs :: "handler \<Rightarrow> Attr list \<Rightarrow> handler" where
  "WithAttrs (TextHandler c) attrs = TextHandler (common_withAttrs c attrs)"
| "WithAttrs (JSONHandler c) attrs = JSONHandler (common_withAttrs c attrs)"
| "WithAttrs (colorHandler h) attrs = colorHandler (WithAttrs h attrs)"

fun WithGroup_h :: "handler \<Rightarrow> string \<Rightarrow> handler" where
  "WithGroup_h (TextHandler c) name = TextHandler (common_withGroup c name)"
| "WithGroup_h (JSONHandler c) name = JSONHandler (common_withGroup c name)"
| "WithGroup_h (colorHandler h) name = colorHandler (WithGroup_h h name)"

subsection \<open>slog.Logger\<close>

datatype Logger = Logger (Handler: handler)

definition New :: "handler \<Rightarrow> Logger" where
  "New h = Logger h"

text \<open>\<^verbatim>\<open>Logger.With\<close> and \<^verbatim>\<open>Logger.WithGroup\<close> return the receiver for no arguments
  and for the empty name; otherwise a logger on the derived handler. The arguments are
  taken as the attributes they are converted to.\<close>

definition Logger_With :: "Logger \<Rightarrow> Attr list \<Rightarrow> Logger" where
  "Logger_With l args = (if args = [] then l else Logger (WithAttrs (Handler l) args))"

definition Logger_WithGroup :: "Logger \<Rightarrow> string \<Rightarrow> Logger" where
  "Logger_WithGroup l name = (if name = [] then l else Logger (WithGroup_h (Handler l) name))"

text \<open>\<^verbatim>\<open>Logger.log\<close>: a record below the handler's threshold is dropped before it is
  built; \<^verbatim>\<open>Record.Add\<close> omits the arguments that are empty groups; the error
  \<^verbatim>\<open>Handle\<close> returns is discarded.\<close>

definition Logger_log :: "Logger \<Rightarrow> Level \<Rightarrow> string \<Rightarrow> Attr list \<Rightarrow> world \<Rightarrow> world" where
  "Logger_log l level msg args wd =
     (if \<not> Enabled (Handler l) level then wd
      else snd (Handle (Handler l)
                  \<lparr>rTime = now wd, rMessage = msg, rLevel = level,
                   rAttrs = filter (\<lambda>a. \<not> isEmptyGroup (snd a)) args\<rparr> wd))"

subsection \<open>The package state, Init, SetLogFile, get\<close>

text \<open>\<^verbatim>\<open>Config\<close>. \<open>Level\<close> is a \<^verbatim>\<open>slog.Leveler\<close>, taken as the level it reports
  (nil is \<open>None\<close>); \<open>Out\<close> is an \<^verbatim>\<open>io.Writer\<close> (nil is \<open>None\<close>).\<close>

record Config =
  Level :: "Level option"
  JSON :: bool
  Out :: "writer option"
  Color :: bool

definition defaultCfg :: Config where
  "defaultCfg = \<lparr>Level = Some LevelInfo, JSON = False, Out = Some Stdout, Color = False\<rparr>"

text \<open>The package variables: \<^verbatim>\<open>logger\<close> (nil at start), whether \<^verbatim>\<open>once\<close> has run
  its function, and \<^verbatim>\<open>currentCfg\<close> (the zero \<^verbatim>\<open>Config{}\<close> at start).\<close>

record globals =
  logger :: "Logger option"
  once :: bool
  currentCfg :: Config

definition initial :: globals where
  "initial = \<lparr>logger = None, once = False,
              currentCfg = \<lparr>Level = None, JSON = False, Out = None, Color = False\<rparr>\<rparr>"

definition Init :: "Config \<Rightarrow> globals \<Rightarrow> globals" where
  "Init cfg0 g =
     (let cfg = (if Out cfg0 = None then cfg0\<lparr>Out := Out defaultCfg\<rparr> else cfg0);
          cfg = (if Level cfg = None then cfg\<lparr>Level := Level defaultCfg\<rparr> else cfg);
          h = (if JSON cfg then NewJSONHandler (Out cfg) (Level cfg)
               else (let base = NewTextHandler (Out cfg) (Level cfg)
                     in if Color cfg then colorHandler base else base));
          l = New h
      in g\<lparr>logger := Some l, currentCfg := cfg\<rparr>)"

definition SetLogFile :: "string \<Rightarrow> globals \<Rightarrow> world \<Rightarrow> error option \<times> globals \<times> world" where
  "SetLogFile path g wd =
     (case OpenFile path wd of
        (Inl err, wd') \<Rightarrow> (Some err, g, wd')
      | (Inr f, wd') \<Rightarrow>
          (let cfg = currentCfg g;
               cfg = (if Out cfg = None \<and> Level cfg = None then defaultCfg else cfg);
               cfg = cfg\<lparr>Out := Some f\<rparr>
           in (None, Init cfg g, wd')))"

text \<open>\<^verbatim>\<open>get\<close>: \<^verbatim>\<open>once.Do\<close> runs \<^verbatim>\<open>Init(defaultCfg)\<close> the first time \<^verbatim>\<open>get\<close> is
  called and marks \<^verbatim>\<open>once\<close> done; then the current \<^verbatim>\<open>logger\<close> is returned.\<close>

definition get :: "globals \<Rightarrow> Logger option \<times> globals" where
  "get g =
     (let g' = (if once g then g else (Init defaultCfg g)\<lparr>once := True\<rparr>)
      in (logger g', g'))"

text \<open>The derivation and emission helpers call a method on what \<^verbatim>\<open>get\<close> returns; on
  a nil logger that is the failure \<open>NilLogger\<close>.\<close>

definition With :: "Attr list \<Rightarrow> globals \<Rightarrow> (error + Logger) \<times> globals" where
  "With args g =
     (case get g of
        (None, g') \<Rightarrow> (Inl NilLogger, g')
      | (Some l, g') \<Rightarrow> (Inr (Logger_With l args), g'))"

definition WithGroup :: "string \<Rightarrow> globals \<Rightarrow> (error + Logger) \<times> globals" where
  "WithGroup name g =
     (case get g of
        (None, g') \<Rightarrow> (Inl NilLogger, g')
      | (Some l, g') \<Rightarrow> (Inr (Logger_WithGroup l name), g'))"

text \<open>\<open>emit\<close> is the common body of the level helpers (\<^verbatim>\<open>get().Info(msg, args...)\<close> and
  the like). The \<^verbatim>\<open>Ctx\<close> variants differ by the context they pass on, which the
  built-in handlers and the decorator do not read.\<close>

definition emit :: "Level \<Rightarrow> string \<Rightarrow> Attr list \<Rightarrow> globals \<Rightarrow> world
    \<Rightarrow> error option \<times> globals \<times> world" where
  "emit level msg args g wd =
     (case get g of
        (None, g') \<Rightarrow> (Some NilLogger, g', wd)
      | (Some l, g') \<Rightarrow> (None, g', Logger_log l level msg args wd))"

definition Debug :: "string \<Rightarrow> Attr list \<Rightarrow> globals \<Rightarrow> world \<Rightarrow> error option \<times> globals \<times> world" where
  "Debug msg args g wd = emit LevelDebug msg args g wd"

definition Info :: "string \<Rightarrow> Attr list \<Rightarrow> globals \<Rightarrow> world \<Rightarrow> error option \<times> globals \<times> world" where
  "Info msg args g wd = emit LevelInfo msg args g wd"

definition Warn :: "string \<Rightarrow> Attr list \<Rightarrow> globals \<Rightarrow> world \<Rightarrow> error option \<times> globals \<times> world" where
  "Warn msg args g wd = emit LevelWarn msg args g wd"

definition Error :: "string \<Rightarrow> Attr list \<Rightarrow> globals \<Rightarrow> world \<Rightarrow> error option \<times> globals \<times> world" where
  "Error msg args g wd = emit LevelError msg args g wd"


subsection \<open>Observations on a handler chain\<close>

text \<open>What the claims observe of a chain: the state of the formatter at its core,
  which formatter that is, whether the chain is colour-decorated, and its threshold.\<close>

fun common_of :: "handler \<Rightarrow> commonHandler" where
  "common_of (TextHandler c) = c"
| "common_of (JSONHandler c) = c"
| "common_of (colorHandler h) = common_of h"

fun formatter_JSON :: "handler \<Rightarrow> bool" where
  "formatter_JSON (TextHandler c) = False"
| "formatter_JSON (JSONHandler c) = True"
| "formatter_JSON (colorHandler h) = formatter_JSON h"

fun decorated :: "handler \<Rightarrow> bool" where
  "decorated (colorHandler h) = True"
| "decorated h = False"

definition threshold :: "handler \<Rightarrow> Level" where
  "threshold h = (case ch_Level (common_of h) of None \<Rightarrow> LevelInfo | Some lv \<Rightarrow> lv)"

text \<open>The colour band as the specification words it: red from Error up, else yellow
  from Warn up, else green from Info up, else blue. \<open>paint\<close> is the record the
  specification says the decorator hands on.\<close>

definition band_color :: "Level \<Rightarrow> string" where
  "band_color l =
     (if l \<ge> LevelError then colorRed
      else if l \<ge> LevelWarn then colorYellow
      else if l \<ge> LevelInfo then colorGreen
      else colorBlue)"

definition paint :: "Record \<Rightarrow> Record" where
  "paint r = r\<lparr>rMessage := band_color (rLevel r) @ rMessage r @ colorReset\<rparr>"

text \<open>The message a chain renders for a message logged at a level: every decorator on
  the way to the formatter wraps it once.\<close>

fun shown_msg :: "handler \<Rightarrow> Level \<Rightarrow> string \<Rightarrow> string" where
  "shown_msg (colorHandler h) l m = shown_msg h l (band_color l @ m @ colorReset)"
| "shown_msg h l m = m"

text \<open>The attributes that are neither empty nor groups.\<close>

fun plain :: "Attr \<Rightarrow> bool" where
  "plain (k, Scalar x) = True"
| "plain (k, NilValue) = (k \<noteq> [])"
| "plain (k, Group attrs) = False"

text \<open>A chain of derivations is a list of steps, applied left to right.\<close>

datatype derivation = DAttrs "Attr list" | DGroup string

fun derive1 :: "handler \<Rightarrow> derivation \<Rightarrow> handler" where
  "derive1 h (DAttrs as) = WithAttrs h as"
| "derive1 h (DGroup name) = WithGroup_h h name"

subsection \<open>Concrete inputs\<close>

definition cfgJ :: Config where
  "cfgJ = \<lparr>Level = Some LevelDebug, JSON = True, Out = Some Stderr, Color = False\<rparr>"

definition cfgW :: Config where
  "cfgW = \<lparr>Level = Some LevelWarn, JSON = False, Out = Some Stderr, Color = True\<rparr>"

definition gJ :: globals where
  "gJ = Init cfgJ (snd (get initial))"

definition wd0 :: world where
  "wd0 = \<lparr>written = [Stdout \<mapsto> [], Stderr \<mapsto> []],
          cannot_open = (\<lambda>p. p = ''/nodir/app.log''),
          write_fails = (\<lambda>w. False), now = 7\<rparr>"

section \<open>Properties\<close>

subsection \<open>Handlers\<close>

lemma band_color_nonempty: "band_color l \<noteq> []"
  by (simp add: band_color_def colorRed_def colorYellow_def colorGreen_def colorBlue_def)

lemma Handle_colorHandler: "Handle (colorHandler h) r wd = Handle h (paint r) wd"
  using band_color_nonempty [of "rLevel r"]
  by (simp add: Clone_def Let_def paint_def band_color_def)

text \<open>Every chain hands exactly one line to the writer of its formatter.\<close>

lemma Handle_line:
  "Handle h r wd =
     sink_write (ch_w (common_of h))
       \<lparr>e_json = formatter_JSON h, e_time = rTime r, e_level = rLevel r,
        e_msg = shown_msg h (rLevel r) (rMessage r),
        e_fields = ch_attrs (common_of h)
                   @ appendAttrs (ch_groups (common_of h)) (rAttrs r)\<rparr> wd"
proof (induction h arbitrary: r)
  case (colorHandler h)
  show ?case
    by (simp only: Handle_colorHandler colorHandler.IH) (simp add: paint_def)
qed (simp_all add: common_line_def)

lemma Enabled_threshold: "Enabled h l = (threshold h \<le> l)"
  by (induction h) (simp_all add: common_enabled_def threshold_def)

lemma formatter_JSON_derive1: "formatter_JSON (derive1 h d) = formatter_JSON h"
  by (induction h) (cases d; simp)+

lemma decorated_derive1: "decorated (derive1 h d) = decorated h"
  by (cases h; cases d) simp_all

lemma formatter_JSON_derive: "formatter_JSON (foldl derive1 h ds) = formatter_JSON h"
  by (induction ds arbitrary: h) (simp_all add: formatter_JSON_derive1)

lemma decorated_derive: "decorated (foldl derive1 h ds) = decorated h"
  by (induction ds arbitrary: h) (simp_all add: decorated_derive1)

lemma shown_msg_plain: "\<not> decorated h \<Longrightarrow> shown_msg h l m = m"
  by (cases h) simp_all

lemma appendAttr_empty_group: "isEmptyGroup (snd a) \<Longrightarrow> appendAttr p a = []"
  by (cases a) (auto simp add: isEmptyGroup_def split: Value.splits)

lemma appendAttrs_Nil: "appendAttrs p [] = []"
  by (simp add: appendAttrs_def)

lemma appendAttrs_Cons: "appendAttrs p (a # as) = appendAttr p a @ appendAttrs p as"
  by (simp add: appendAttrs_def)

lemma appendAttrs_append: "appendAttrs p (as @ bs) = appendAttrs p as @ appendAttrs p bs"
  by (simp add: appendAttrs_def)

text \<open>Dropping the empty groups of a list beforehand does not change what it renders
  to, and a list of empty groups only renders nothing.\<close>

lemma appendAttrs_filter:
  "appendAttrs p (filter (\<lambda>a. \<not> isEmptyGroup (snd a)) as) = appendAttrs p as"
proof (induction as)
  case Nil
  show ?case by simp
next
  case (Cons a as)
  show ?case
  proof (cases "isEmptyGroup (snd a)")
    case True
    with Cons.IH show ?thesis
      by (simp add: appendAttrs_Cons appendAttr_empty_group)
  next
    case False
    with Cons.IH show ?thesis
      by (simp add: appendAttrs_Cons)
  qed
qed

lemma all_empty_groups: "countEmptyGroups as = length as \<Longrightarrow> appendAttrs p as = []"
proof (induction as)
  case Nil
  show ?case by (simp add: appendAttrs_Nil)
next
  case (Cons a as)
  have le: "length (filter (\<lambda>a. isEmptyGroup (snd a)) as) \<le> length as"
    by simp
  show ?case
  proof (cases "isEmptyGroup (snd a)")
    case True
    with Cons.prems have "countEmptyGroups as = length as"
      by (simp add: countEmptyGroups_def)
    with Cons.IH True show ?thesis
      by (simp add: appendAttrs_Cons appendAttr_empty_group)
  next
    case False
    with Cons.prems le show ?thesis
      by (simp add: countEmptyGroups_def)
  qed
qed

text \<open>An attribute that is neither empty nor a group is one field, so a list of such
  attributes renders to itself.\<close>

lemma appendAttr_plain: "plain a \<Longrightarrow> appendAttr p a = [(p, fst a, snd a)]"
  by (cases a rule: plain.cases) (simp_all add: isEmpty_def)

lemma appendAttrs_plain:
  "\<forall>a \<in> set as. plain a \<Longrightarrow> appendAttrs p as = map (\<lambda>a. (p, fst a, snd a)) as"
  by (induction as) (simp_all add: appendAttrs_Nil appendAttrs_Cons appendAttr_plain)

lemma common_withAttrs_Nil: "common_withAttrs c [] = c"
  by (simp add: common_withAttrs_def countEmptyGroups_def)

lemma common_withAttrs_eq:
  "common_withAttrs c as = c\<lparr>ch_attrs := ch_attrs c @ appendAttrs (ch_groups c) as\<rparr>"
  by (simp add: common_withAttrs_def all_empty_groups)

lemma common_of_WithAttrs: "common_of (WithAttrs h as) = common_withAttrs (common_of h) as"
  by (induction h) simp_all

lemma formatter_JSON_WithAttrs: "formatter_JSON (WithAttrs h as) = formatter_JSON h"
  by (induction h) simp_all

lemma shown_msg_WithAttrs: "shown_msg (WithAttrs h as) l m = shown_msg h l m"
  by (induction h arbitrary: m) simp_all

lemma Enabled_WithAttrs: "Enabled (WithAttrs h as) l = Enabled h l"
  by (induction h) (simp_all add: common_enabled_def common_withAttrs_eq)

subsection \<open>Loggers\<close>

lemma common_of_Logger_With:
  "common_of (Handler (Logger_With l a)) = common_withAttrs (common_of (Handler l)) a"
  by (simp add: Logger_With_def common_of_WithAttrs common_withAttrs_Nil)

lemma formatter_JSON_Logger_With:
  "formatter_JSON (Handler (Logger_With l a)) = formatter_JSON (Handler l)"
  by (simp add: Logger_With_def formatter_JSON_WithAttrs)

lemma shown_msg_Logger_With:
  "shown_msg (Handler (Logger_With l a)) lv m = shown_msg (Handler l) lv m"
  by (simp add: Logger_With_def shown_msg_WithAttrs)

lemma Enabled_Logger_With:
  "Enabled (Handler (Logger_With l a)) lv = Enabled (Handler l) lv"
  by (simp add: Logger_With_def Enabled_WithAttrs)

lemma Logger_log_line:
  "Logger_log l L msg args wd =
     (if Enabled (Handler l) L
      then snd (sink_write (ch_w (common_of (Handler l)))
             \<lparr>e_json = formatter_JSON (Handler l), e_time = now wd, e_level = L,
              e_msg = shown_msg (Handler l) L msg,
              e_fields = ch_attrs (common_of (Handler l))
                         @ appendAttrs (ch_groups (common_of (Handler l))) args\<rparr> wd)
      else wd)"
  by (simp add: Logger_log_def Handle_line appendAttrs_filter)

lemma sink_write_neq: "snd (sink_write (Some out) e wd) \<noteq> wd"
proof
  assume "snd (sink_write (Some out) e wd) = wd"
  then have "written (snd (sink_write (Some out) e wd)) out = written wd out" by simp
  then show False by (simp add: sink_write_def split: option.splits)
qed

subsection \<open>Init, SetLogFile and get on the package state\<close>

text \<open>\<^verbatim>\<open>Init\<close> in closed form: the two nil fields are filled from the defaults, the
  chain is built from the filled configuration, and \<open>once\<close> is not touched.\<close>

lemma Init_eq:
  "Init cfg g =
     g\<lparr>logger := Some (New
         (if JSON cfg
          then NewJSONHandler (Some (case Out cfg of None \<Rightarrow> Stdout | Some x \<Rightarrow> x))
                 (Some (case Level cfg of None \<Rightarrow> LevelInfo | Some t \<Rightarrow> t))
          else if Color cfg
          then colorHandler
                 (NewTextHandler (Some (case Out cfg of None \<Rightarrow> Stdout | Some x \<Rightarrow> x))
                    (Some (case Level cfg of None \<Rightarrow> LevelInfo | Some t \<Rightarrow> t)))
          else NewTextHandler (Some (case Out cfg of None \<Rightarrow> Stdout | Some x \<Rightarrow> x))
                 (Some (case Level cfg of None \<Rightarrow> LevelInfo | Some t \<Rightarrow> t)))),
       currentCfg := cfg\<lparr>Out := Some (case Out cfg of None \<Rightarrow> Stdout | Some x \<Rightarrow> x),
                          Level := Some (case Level cfg of None \<Rightarrow> LevelInfo | Some t \<Rightarrow> t)\<rparr>\<rparr>"
  by (cases "Out cfg"; cases "Level cfg") (simp_all add: Init_def Let_def defaultCfg_def)

lemma once_Init: "once (Init cfg g) = once g"
  by (simp add: Init_eq)

lemma Init_Init: "Init cfg (Init cfg0 g) = Init cfg g"
  by (simp add: Init_eq)

lemma Init_refill:
  "Init ((currentCfg (Init cfg1 g0))\<lparr>Out := Some f\<rparr>) g = Init (cfg1\<lparr>Out := Some f\<rparr>) g"
  by (cases "Level cfg1") (simp_all add: Init_eq)

lemma SetLogFile_ok:
  "\<not> cannot_open wd p \<Longrightarrow>
   SetLogFile p g wd =
     (None,
      Init ((if Out (currentCfg g) = None \<and> Level (currentCfg g) = None then defaultCfg
             else currentCfg g)\<lparr>Out := Some (FileW p)\<rparr>) g,
      wd\<lparr>written := (written wd)(FileW p \<mapsto>
            (case written wd (FileW p) of None \<Rightarrow> [] | Some es \<Rightarrow> es))\<rparr>)"
  by (simp add: SetLogFile_def OpenFile_def Let_def)

lemma get_once: "once g \<Longrightarrow> get g = (logger g, g)"
  by (simp add: get_def)

text \<open>Once \<^verbatim>\<open>get\<close> has run, the last \<^verbatim>\<open>Init\<close> wins; a second \<^verbatim>\<open>get\<close> changes
  nothing; and \<^verbatim>\<open>get\<close> never returns nil on a state where \<open>once\<close> implies a logger.\<close>

lemma get_after_Init: "once g \<Longrightarrow> get (Init cfg g) = (logger (Init cfg g), Init cfg g)"
  by (simp add: get_once once_Init)

lemma get_get: "get (snd (get g)) = get g"
  by (simp add: get_def Let_def)

lemma get_not_nil: "once g \<longrightarrow> logger g \<noteq> None \<Longrightarrow> fst (get g) \<noteq> None"
  by (simp add: get_def Let_def Init_eq)

text \<open>The states the package can reach keep a logger installed once \<open>once\<close> has run.\<close>

lemma installed_initial: "once initial \<longrightarrow> logger initial \<noteq> None"
  by (simp add: initial_def)

lemma installed_Init: "once (Init cfg g) \<longrightarrow> logger (Init cfg g) \<noteq> None"
  by (simp add: Init_eq)

lemma installed_get:
  "once g \<longrightarrow> logger g \<noteq> None \<Longrightarrow> once (snd (get g)) \<and> logger (snd (get g)) \<noteq> None"
  by (simp add: get_def Let_def Init_eq)

lemma installed_SetLogFile:
  "once g \<longrightarrow> logger g \<noteq> None \<Longrightarrow>
   once (fst (snd (SetLogFile p g wd))) \<longrightarrow> logger (fst (snd (SetLogFile p g wd))) \<noteq> None"
proof (cases "cannot_open wd p")
  case True
  assume "once g \<longrightarrow> logger g \<noteq> None"
  with True show ?thesis by (simp add: SetLogFile_def OpenFile_def)
next
  case False
  then show ?thesis by (simp add: SetLogFile_ok Init_eq)
qed

text \<open>While \<open>once\<close> has not run, the first \<^verbatim>\<open>get\<close> after any \<^verbatim>\<open>Init\<close> installs the
  default chain and the default configuration in place of the configured ones.\<close>

lemma first_get_after_Init:
  "\<not> once g \<Longrightarrow>
   get (Init cfg g) =
     (Some (New (NewTextHandler (Some Stdout) (Some LevelInfo))),
      g\<lparr>logger := Some (New (NewTextHandler (Some Stdout) (Some LevelInfo))),
        once := True, currentCfg := defaultCfg\<rparr>)"
  by (simp add: get_def Let_def once_Init Init_Init) (simp add: Init_eq defaultCfg_def)

section \<open>The claims\<close>

text \<open>
  Claim C1 (code contradicts it): when \<^verbatim>\<open>Init(cfg)\<close> is called before the first
  \<^verbatim>\<open>get\<close>, every later \<^verbatim>\<open>get\<close> should use the logger of the most recent \<^verbatim>\<open>Init\<close>,
  and the lazy default initialisation should never replace a configured logger.
  \<^verbatim>\<open>Init\<close> does not mark \<^verbatim>\<open>once\<close>, so the first \<^verbatim>\<open>get\<close> after it still runs
  \<^verbatim>\<open>Init(defaultCfg)\<close>: after \<^verbatim>\<open>Init\<close> with JSON output at Debug level on standard
  error, the first \<^verbatim>\<open>get\<close> returns the default text logger on standard output, and
  the first \<^verbatim>\<open>Info\<close> writes a text line to standard output and nothing to standard
  error.
\<close>

theorem C1_first_get_discards_Init:
  "logger (Init cfgJ initial) = Some (New (NewJSONHandler (Some Stderr) (Some LevelDebug)))
   \<and> fst (get (Init cfgJ initial)) = Some (New (NewTextHandler (Some Stdout) (Some LevelInfo)))
   \<and> fst (get (Init cfgJ initial)) \<noteq> logger (Init cfgJ initial)
   \<and> written (snd (snd (Info ''up'' [] (Init cfgJ initial) wd0))) Stderr = Some []
   \<and> written (snd (snd (Info ''up'' [] (Init cfgJ initial) wd0))) Stdout =
       Some [\<lparr>e_json = False, e_time = 7, e_level = LevelInfo, e_msg = ''up'', e_fields = []\<rparr>]"
  by (simp add: Init_eq cfgJ_def initial_def get_def defaultCfg_def Info_def emit_def
      Logger_log_def New_def NewTextHandler_def NewJSONHandler_def common_enabled_def
      common_line_def appendAttrs_def sink_write_def wd0_def LevelInfo_def LevelDebug_def)

text \<open>
  Claim C2: after \<^verbatim>\<open>Init(cfg1)\<close> and a successful \<^verbatim>\<open>SetLogFile(p)\<close>, the package
  state is the one \<^verbatim>\<open>Init\<close> builds from \<open>cfg1\<close> with only the sink replaced by the
  file at \<open>p\<close>: the logger's threshold, formatter and decoration are those of the
  logger of \<^verbatim>\<open>Init(cfg1)\<close>, the remembered level, format and colour flag are those of
  \<open>cfg1\<close>, the chain writes to the file, and the file exists afterwards with the
  contents it had (empty if it was missing).
\<close>

theorem C2_SetLogFile_keeps_level_format_color:
  assumes "SetLogFile p (Init cfg1 g) wd = (None, g', wd')"
  shows "g' = Init (cfg1\<lparr>Out := Some (FileW p)\<rparr>) g
    \<and> map_option (threshold \<circ> Handler) (logger g')
        = Some (case Level cfg1 of None \<Rightarrow> LevelInfo | Some t \<Rightarrow> t)
    \<and> map_option (threshold \<circ> Handler) (logger g')
        = map_option (threshold \<circ> Handler) (logger (Init cfg1 g))
    \<and> map_option (formatter_JSON \<circ> Handler) (logger g') = Some (JSON cfg1)
    \<and> map_option (decorated \<circ> Handler) (logger g') = Some (\<not> JSON cfg1 \<and> Color cfg1)
    \<and> map_option (decorated \<circ> Handler) (logger g')
        = map_option (decorated \<circ> Handler) (logger (Init cfg1 g))
    \<and> map_option (ch_w \<circ> common_of \<circ> Handler) (logger g') = Some (Some (FileW p))
    \<and> Level (currentCfg g') = Level (currentCfg (Init cfg1 g))
    \<and> JSON (currentCfg g') = JSON cfg1
    \<and> Color (currentCfg g') = Color cfg1
    \<and> Out (currentCfg g') = Some (FileW p)
    \<and> written wd' (FileW p) = Some (case written wd (FileW p) of None \<Rightarrow> [] | Some es \<Rightarrow> es)"
proof -
  from assms have op: "\<not> cannot_open wd p"
    by (auto simp add: SetLogFile_def OpenFile_def split: if_splits)
  with assms have wd': "wd' = wd\<lparr>written := (written wd)(FileW p \<mapsto>
        (case written wd (FileW p) of None \<Rightarrow> [] | Some es \<Rightarrow> es))\<rparr>"
    by (simp add: SetLogFile_def OpenFile_def Let_def)
  have filled: "Out (currentCfg (Init cfg1 g)) \<noteq> None"
    by (simp add: Init_eq)
  from assms op
  have "g' = Init ((currentCfg (Init cfg1 g))\<lparr>Out := Some (FileW p)\<rparr>) (Init cfg1 g)"
    by (simp add: SetLogFile_ok filled)
  also have "\<dots> = Init ((currentCfg (Init cfg1 g))\<lparr>Out := Some (FileW p)\<rparr>) g"
    by (rule Init_Init)
  also have "\<dots> = Init (cfg1\<lparr>Out := Some (FileW p)\<rparr>) g"
    by (rule Init_refill)
  finally have g': "g' = Init (cfg1\<lparr>Out := Some (FileW p)\<rparr>) g" .
  show ?thesis
    unfolding g' wd'
    by (simp add: Init_eq New_def NewJSONHandler_def NewTextHandler_def threshold_def)
qed

theorem C2_SetLogFile_keeps_level_format_color_witness:
  "SetLogFile ''app.log'' (Init cfgW initial) wd0 =
     (None, Init (cfgW\<lparr>Out := Some (FileW ''app.log'')\<rparr>) initial,
      wd0\<lparr>written := [Stdout \<mapsto> [], Stderr \<mapsto> [], FileW ''app.log'' \<mapsto> []]\<rparr>)
   \<and> map_option (threshold \<circ> Handler)
        (logger (Init (cfgW\<lparr>Out := Some (FileW ''app.log'')\<rparr>) initial)) = Some LevelWarn
   \<and> map_option (formatter_JSON \<circ> Handler)
        (logger (Init (cfgW\<lparr>Out := Some (FileW ''app.log'')\<rparr>) initial)) = Some False
   \<and> map_option (decorated \<circ> Handler)
        (logger (Init (cfgW\<lparr>Out := Some (FileW ''app.log'')\<rparr>) initial)) = Some True
   \<and> map_option (ch_w \<circ> common_of \<circ> Handler)
        (logger (Init (cfgW\<lparr>Out := Some (FileW ''app.log'')\<rparr>) initial))
        = Some (Some (FileW ''app.log''))"
proof -
  have run: "SetLogFile ''app.log'' (Init cfgW initial) wd0 =
     (None, Init (cfgW\<lparr>Out := Some (FileW ''app.log'')\<rparr>) initial,
      wd0\<lparr>written := [Stdout \<mapsto> [], Stderr \<mapsto> [], FileW ''app.log'' \<mapsto> []]\<rparr>)"
    by (simp add: SetLogFile_def OpenFile_def Let_def wd0_def Init_eq cfgW_def initial_def)
  from C2_SetLogFile_keeps_level_format_color [OF run] run
  show ?thesis
    by (simp add: cfgW_def Init_eq New_def NewTextHandler_def threshold_def)
qed

text \<open>
  Claim C3: deriving from a colour-decorated handler with attributes or with a group
  gives a colour decorator around the inner handler's own derivation; so after a
  chain of derivations of any length the handler is still the decorator around the
  derived inner handler, and its \<^verbatim>\<open>Handle\<close> hands the inner chain the record with the
  colour code and the reset code around the message.
\<close>

theorem C3_derivation_keeps_decoration:
  "WithAttrs (colorHandler h) attrs = colorHandler (WithAttrs h attrs)
   \<and> WithGroup_h (colorHandler h) name = colorHandler (WithGroup_h h name)
   \<and> foldl derive1 (colorHandler h) ds = colorHandler (foldl derive1 h ds)
   \<and> Handle (foldl derive1 (colorHandler h) ds) r wd = Handle (foldl derive1 h ds) (paint r) wd"
proof -
  have chain: "foldl derive1 (colorHandler h) ds = colorHandler (foldl derive1 h ds)"
  proof (induction ds arbitrary: h)
    case Nil
    show ?case by simp
  next
    case (Cons d ds)
    have "derive1 (colorHandler h) d = colorHandler (derive1 h d)"
      by (cases d) simp_all
    with Cons.IH [of "derive1 h d"] show ?case by simp
  qed
  have "Handle (foldl derive1 (colorHandler h) ds) r wd
      = Handle (colorHandler (foldl derive1 h ds)) r wd"
    by (simp only: chain)
  also have "\<dots> = Handle (foldl derive1 h ds) (paint r) wd"
    by (rule Handle_colorHandler)
  finally show ?thesis using chain by simp
qed

theorem C3_derivation_keeps_decoration_witness:
  "Handle (foldl derive1 (colorHandler (NewTextHandler (Some Stderr) (Some LevelDebug)))
             [DGroup ''req'', DAttrs [(''id'', Scalar ''7'')], DGroup ''db''])
          \<lparr>rTime = 3, rMessage = ''boom'', rLevel = LevelError, rAttrs = [(''t'', Scalar ''1'')]\<rparr> wd0
   = sink_write (Some Stderr)
       \<lparr>e_json = False, e_time = 3, e_level = LevelError,
        e_msg = colorRed @ ''boom'' @ colorReset,
        e_fields = [([''req''], ''id'', Scalar ''7''), ([''req'', ''db''], ''t'', Scalar ''1'')]\<rparr> wd0"
  using C3_derivation_keeps_decoration [of "NewTextHandler (Some Stderr) (Some LevelDebug)"
      "[]" "[]" "[DGroup ''req'', DAttrs [(''id'', Scalar ''7'')], DGroup ''db'']"
      "\<lparr>rTime = 3, rMessage = ''boom'', rLevel = LevelError, rAttrs = [(''t'', Scalar ''1'')]\<rparr>" wd0]
  by (simp add: NewTextHandler_def paint_def band_color_def common_withAttrs_eq
      common_withGroup_def common_line_def appendAttrs_def isEmpty_def
      del: Handle.simps(3))

text \<open>
  Claim C4: the chain \<^verbatim>\<open>Init\<close> builds depends on the configuration only (not on the
  previous state). Its formatter is the JSON formatter exactly when \<open>JSON\<close> is set, and
  it is colour-decorated exactly when \<open>JSON\<close> is unset and \<open>Color\<close> is set. With \<open>JSON\<close>
  set the \<open>Color\<close> flag makes no difference to the logger, and the line any handler
  derived from the chain hands to its writer is a JSON line carrying the record's
  message as it was logged (no colour code is added).
\<close>

theorem C4_chain_selection:
  "map_option (formatter_JSON \<circ> Handler) (logger (Init cfg g)) = Some (JSON cfg)
   \<and> map_option (decorated \<circ> Handler) (logger (Init cfg g)) = Some (\<not> JSON cfg \<and> Color cfg)
   \<and> logger (Init cfg g) = logger (Init cfg g')
   \<and> (JSON cfg \<longrightarrow> logger (Init (cfg\<lparr>Color := c\<rparr>) g) = logger (Init cfg g))
   \<and> (JSON cfg \<longrightarrow> logger (Init cfg g) = Some l \<longrightarrow>
        (\<exists>wo fs. Handle (foldl derive1 (Handler l) ds) r wd =
            sink_write wo \<lparr>e_json = True, e_time = rTime r, e_level = rLevel r,
                           e_msg = rMessage r, e_fields = fs\<rparr> wd))"
proof -
  have 1: "map_option (formatter_JSON \<circ> Handler) (logger (Init cfg g)) = Some (JSON cfg)"
    by (simp add: Init_eq New_def NewJSONHandler_def NewTextHandler_def)
  have 2: "map_option (decorated \<circ> Handler) (logger (Init cfg g)) = Some (\<not> JSON cfg \<and> Color cfg)"
    by (simp add: Init_eq New_def NewJSONHandler_def NewTextHandler_def)
  have 3: "logger (Init cfg g) = logger (Init cfg g')"
    by (simp add: Init_eq)
  have 4: "JSON cfg \<longrightarrow> logger (Init (cfg\<lparr>Color := c\<rparr>) g) = logger (Init cfg g)"
    by (simp add: Init_eq)
  have 5: "JSON cfg \<longrightarrow> logger (Init cfg g) = Some l \<longrightarrow>
        (\<exists>wo fs. Handle (foldl derive1 (Handler l) ds) r wd =
            sink_write wo \<lparr>e_json = True, e_time = rTime r, e_level = rLevel r,
                           e_msg = rMessage r, e_fields = fs\<rparr> wd)"
  proof (intro impI)
    assume j: "JSON cfg" and l: "logger (Init cfg g) = Some l"
    from 1 l j have fj: "formatter_JSON (Handler l)" by simp
    from 2 l j have nd: "\<not> decorated (Handler l)" by simp
    let ?h = "foldl derive1 (Handler l) ds"
    have "formatter_JSON ?h" using fj by (simp add: formatter_JSON_derive)
    moreover have "shown_msg ?h (rLevel r) (rMessage r) = rMessage r"
      using nd by (simp add: shown_msg_plain decorated_derive)
    ultimately show "\<exists>wo fs. Handle ?h r wd =
            sink_write wo \<lparr>e_json = True, e_time = rTime r, e_level = rLevel r,
                           e_msg = rMessage r, e_fields = fs\<rparr> wd"
      using Handle_line [of ?h r wd] by auto
  qed
  from 1 2 3 4 5 show ?thesis by blast
qed

theorem C4_chain_selection_witness:
  "JSON (cfgJ\<lparr>Color := True\<rparr>)
   \<and> logger (Init (cfgJ\<lparr>Color := True\<rparr>) initial)
       = Some (New (NewJSONHandler (Some Stderr) (Some LevelDebug)))
   \<and> map_option (formatter_JSON \<circ> Handler) (logger (Init (cfgJ\<lparr>Color := True\<rparr>) initial))
       = Some True
   \<and> map_option (decorated \<circ> Handler) (logger (Init (cfgJ\<lparr>Color := True\<rparr>) initial))
       = Some False
   \<and> logger (Init (cfgJ\<lparr>Color := True, Color := False\<rparr>) initial)
       = logger (Init (cfgJ\<lparr>Color := True\<rparr>) initial)
   \<and> (\<exists>wo fs. Handle (foldl derive1 (Handler (New (NewJSONHandler (Some Stderr) (Some LevelDebug))))
                        [DGroup ''req'', DAttrs [(''id'', Scalar ''7'')]])
                \<lparr>rTime = 7, rMessage = ''boom'', rLevel = LevelError, rAttrs = []\<rparr> wd0 =
            sink_write wo \<lparr>e_json = True, e_time = 7, e_level = LevelError,
                           e_msg = ''boom'', e_fields = fs\<rparr> wd0)"
proof -
  have j: "JSON (cfgJ\<lparr>Color := True\<rparr>)" by (simp add: cfgJ_def)
  have l: "logger (Init (cfgJ\<lparr>Color := True\<rparr>) initial)
       = Some (New (NewJSONHandler (Some Stderr) (Some LevelDebug)))"
    by (simp add: Init_eq cfgJ_def)
  from C4_chain_selection [where cfg = "cfgJ\<lparr>Color := True\<rparr>" and g = initial
      and g' = initial and c = False
      and l = "New (NewJSONHandler (Some Stderr) (Some LevelDebug))"
      and ds = "[DGroup ''req'', DAttrs [(''id'', Scalar ''7'')]]"
      and r = "\<lparr>rTime = 7, rMessage = ''boom'', rLevel = LevelError, rAttrs = []\<rparr>"
      and wd = wd0] j l
  show ?thesis by simp
qed

text \<open>
  Claim C5: \<^verbatim>\<open>Handle\<close> of the colour decorator hands the inner handler a copy of the
  record that differs from it in the message only, which is the colour code, the
  original message and the reset code; the colour code is red for a level of at least
  Error, else yellow for at least Warn, else green for at least Info, else blue. The
  record is passed by value and nothing \<^verbatim>\<open>Handle\<close> returns refers to it, so the
  caller's record is as it was.
\<close>

theorem C5_colorHandler_Handle:
  "Handle (colorHandler h) r wd =
     Handle h (r\<lparr>rMessage :=
                  (if rLevel r \<ge> LevelError then colorRed
                   else if rLevel r \<ge> LevelWarn then colorYellow
                   else if rLevel r \<ge> LevelInfo then colorGreen
                   else colorBlue) @ rMessage r @ colorReset\<rparr>) wd
   \<and> Handle (colorHandler h) r wd = Handle h (paint r) wd
   \<and> rTime (paint r) = rTime r \<and> rLevel (paint r) = rLevel r \<and> rAttrs (paint r) = rAttrs r"
  using Handle_colorHandler [of h r wd] by (simp add: paint_def band_color_def)

theorem C5_colorHandler_Handle_witness:
  "Handle (colorHandler (NewTextHandler (Some Stderr) None))
      \<lparr>rTime = 1, rMessage = ''m'', rLevel = 12, rAttrs = []\<rparr> wd0
    = Handle (NewTextHandler (Some Stderr) None)
      \<lparr>rTime = 1, rMessage = colorRed @ ''m'' @ colorReset, rLevel = 12, rAttrs = []\<rparr> wd0
   \<and> Handle (colorHandler (NewTextHandler (Some Stderr) None))
      \<lparr>rTime = 1, rMessage = ''m'', rLevel = 5, rAttrs = []\<rparr> wd0
    = Handle (NewTextHandler (Some Stderr) None)
      \<lparr>rTime = 1, rMessage = colorYellow @ ''m'' @ colorReset, rLevel = 5, rAttrs = []\<rparr> wd0
   \<and> Handle (colorHandler (NewTextHandler (Some Stderr) None))
      \<lparr>rTime = 1, rMessage = ''m'', rLevel = 0, rAttrs = []\<rparr> wd0
    = Handle (NewTextHandler (Some Stderr) None)
      \<lparr>rTime = 1, rMessage = colorGreen @ ''m'' @ colorReset, rLevel = 0, rAttrs = []\<rparr> wd0
   \<and> Handle (colorHandler (NewTextHandler (Some Stderr) None))
      \<lparr>rTime = 1, rMessage = ''m'', rLevel = - 1, rAttrs = []\<rparr> wd0
    = Handle (NewTextHandler (Some Stderr) None)
      \<lparr>rTime = 1, rMessage = colorBlue @ ''m'' @ colorReset, rLevel = - 1, rAttrs = []\<rparr> wd0"
  using
    C5_colorHandler_Handle [of "NewTextHandler (Some Stderr) None"
      "\<lparr>rTime = 1, rMessage = ''m'', rLevel = 12, rAttrs = []\<rparr>" wd0]
    C5_colorHandler_Handle [of "NewTextHandler (Some Stderr) None"
      "\<lparr>rTime = 1, rMessage = ''m'', rLevel = 5, rAttrs = []\<rparr>" wd0]
    C5_colorHandler_Handle [of "NewTextHandler (Some Stderr) None"
      "\<lparr>rTime = 1, rMessage = ''m'', rLevel = 0, rAttrs = []\<rparr>" wd0]
    C5_colorHandler_Handle [of "NewTextHandler (Some Stderr) None"
      "\<lparr>rTime = 1, rMessage = ''m'', rLevel = - 1, rAttrs = []\<rparr>" wd0]
  by (simp add: LevelError_def LevelWarn_def LevelInfo_def paint_def band_color_def
      del: Handle.simps(3))

text \<open>
  Claim C6: for the logger \<^verbatim>\<open>Init\<close> builds with threshold \<open>T\<close> (the configured level,
  Info when none is given) and every level \<open>L\<close>, a record emitted at \<open>L\<close> is handed to
  the sink if and only if \<open>T \<le> L\<close>: below the threshold the world is unchanged, from
  the threshold up exactly one line at level \<open>L\<close>, with the fields the call's
  attributes render to (the attributes themselves when none is empty or a group), is
  appended to what the configured writer received. Once \<^verbatim>\<open>get\<close> has run, the package-level emission after
  \<^verbatim>\<open>Init\<close> is the emission through that logger. The colour decorator's
  \<^verbatim>\<open>Enabled\<close> returns what the inner handler's returns.
\<close>

theorem C6_level_filter:
  assumes "logger (Init cfg g) = Some l"
    and "T = (case Level cfg of None \<Rightarrow> LevelInfo | Some t \<Rightarrow> t)"
    and "out = (case Out cfg of None \<Rightarrow> Stdout | Some x \<Rightarrow> x)"
  shows "Enabled (Handler l) L = (T \<le> L)
    \<and> (Logger_log l L msg args wd \<noteq> wd) = (T \<le> L)
    \<and> (T \<le> L \<longrightarrow> written (Logger_log l L msg args wd) out =
          Some ((case written wd out of None \<Rightarrow> [] | Some es \<Rightarrow> es)
                @ [\<lparr>e_json = JSON cfg, e_time = now wd, e_level = L,
                     e_msg = (if \<not> JSON cfg \<and> Color cfg then band_color L @ msg @ colorReset
                              else msg),
                     e_fields = appendAttrs [] args\<rparr>]))
    \<and> (once g \<longrightarrow> emit L msg args (Init cfg g) wd
          = (None, Init cfg g, Logger_log l L msg args wd))
    \<and> Enabled (colorHandler h) L = Enabled h L
    \<and> ((\<forall>x \<in> set args. plain x) \<longrightarrow>
          appendAttrs [] args = map (\<lambda>(k, v). ([], k, v)) args)"
proof -
  let ?h = "Handler l"
  from assms(1) have hl: "?h = (if JSON cfg then NewJSONHandler (Some out) (Some T)
      else if Color cfg then colorHandler (NewTextHandler (Some out) (Some T))
      else NewTextHandler (Some out) (Some T))"
    unfolding assms(2,3) by (auto simp add: Init_eq New_def)
  have th: "threshold ?h = T"
    by (simp add: hl threshold_def NewJSONHandler_def NewTextHandler_def)
  have w: "ch_w (common_of ?h) = Some out"
    by (simp add: hl NewJSONHandler_def NewTextHandler_def)
  have en: "Enabled ?h L = (T \<le> L)"
    by (simp add: Enabled_threshold th)
  have chg: "(Logger_log l L msg args wd \<noteq> wd) = (T \<le> L)"
    unfolding Logger_log_line en w using sink_write_neq by simp
  have app: "T \<le> L \<longrightarrow> written (Logger_log l L msg args wd) out =
          Some ((case written wd out of None \<Rightarrow> [] | Some es \<Rightarrow> es)
                @ [\<lparr>e_json = JSON cfg, e_time = now wd, e_level = L,
                     e_msg = (if \<not> JSON cfg \<and> Color cfg then band_color L @ msg @ colorReset
                              else msg),
                     e_fields = appendAttrs [] args\<rparr>])"
    unfolding Logger_log_line en w
    by (simp add: hl NewJSONHandler_def NewTextHandler_def sink_write_def split: option.splits)
  have api: "once g \<longrightarrow> emit L msg args (Init cfg g) wd
          = (None, Init cfg g, Logger_log l L msg args wd)"
    using assms(1) by (simp add: emit_def get_after_Init)
  have whole: "(\<forall>x \<in> set args. plain x) \<longrightarrow>
          appendAttrs [] args = map (\<lambda>(k, v). ([], k, v)) args"
    by (simp add: appendAttrs_plain case_prod_unfold)
  from en chg app api whole show ?thesis by simp
qed

theorem C6_level_filter_witness:
  "logger (Init cfgW initial) = Some (New (colorHandler (NewTextHandler (Some Stderr) (Some LevelWarn))))
   \<and> Logger_log (New (colorHandler (NewTextHandler (Some Stderr) (Some LevelWarn))))
        LevelInfo ''quiet'' [] wd0 = wd0
   \<and> LevelWarn \<le> LevelError
   \<and> written (Logger_log (New (colorHandler (NewTextHandler (Some Stderr) (Some LevelWarn))))
        LevelError ''boom'' [(''k'', Scalar ''v'')] wd0) Stderr =
       Some [\<lparr>e_json = False, e_time = 7, e_level = LevelError,
              e_msg = colorRed @ ''boom'' @ colorReset, e_fields = [([], ''k'', Scalar ''v'')]\<rparr>]"
proof -
  have l: "logger (Init cfgW initial)
      = Some (New (colorHandler (NewTextHandler (Some Stderr) (Some LevelWarn))))"
    by (simp add: Init_eq cfgW_def)
  have T: "LevelWarn = (case Level cfgW of None \<Rightarrow> LevelInfo | Some t \<Rightarrow> t)"
    by (simp add: cfgW_def)
  have out: "Stderr = (case Out cfgW of None \<Rightarrow> Stdout | Some x \<Rightarrow> x)"
    by (simp add: cfgW_def)
  have lo: "\<not> LevelWarn \<le> LevelInfo" and hi: "LevelWarn \<le> LevelError"
    by (simp_all add: LevelWarn_def LevelInfo_def LevelError_def)
  from C6_level_filter [OF l T out, of LevelInfo "''quiet''" "[]" wd0] lo
  have a: "Logger_log (New (colorHandler (NewTextHandler (Some Stderr) (Some LevelWarn))))
        LevelInfo ''quiet'' [] wd0 = wd0"
    by simp
  from C6_level_filter [OF l T out, of LevelError "''boom''" "[(''k'', Scalar ''v'')]" wd0] hi
  have b: "written (Logger_log (New (colorHandler (NewTextHandler (Some Stderr) (Some LevelWarn))))
        LevelError ''boom'' [(''k'', Scalar ''v'')] wd0) Stderr =
       Some [\<lparr>e_json = False, e_time = 7, e_level = LevelError,
              e_msg = colorRed @ ''boom'' @ colorReset, e_fields = [([], ''k'', Scalar ''v'')]\<rparr>]"
    by (simp add: cfgW_def wd0_def band_color_def appendAttrs_def isEmpty_def)
  from l a hi b show ?thesis by simp
qed

text \<open>
  Claim C7: if the file at \<open>p\<close> cannot be opened, \<^verbatim>\<open>SetLogFile(p)\<close> returns the error
  and changes nothing: the package state (the logger, the remembered configuration,
  \<open>once\<close>) and the world are what they were. Conversely, whenever \<^verbatim>\<open>SetLogFile\<close>
  returns an error, state and world are unchanged.
\<close>

theorem C7_SetLogFile_failure:
  "(cannot_open wd p \<longrightarrow> SetLogFile p g wd = (Some (PathError p), g, wd))
   \<and> (fst (SetLogFile p g wd) \<noteq> None \<longrightarrow> snd (SetLogFile p g wd) = (g, wd))"
proof (intro conjI impI)
  assume "cannot_open wd p"
  then have "OpenFile p wd = (Inl (PathError p), wd)"
    by (simp add: OpenFile_def)
  then show "SetLogFile p g wd = (Some (PathError p), g, wd)"
    by (simp add: SetLogFile_def)
next
  assume err: "fst (SetLogFile p g wd) \<noteq> None"
  have "cannot_open wd p"
  proof (rule ccontr)
    assume "\<not> cannot_open wd p"
    then have "fst (SetLogFile p g wd) = None" by (simp add: SetLogFile_ok)
    with err show False by simp
  qed
  then show "snd (SetLogFile p g wd) = (g, wd)"
    by (simp add: SetLogFile_def OpenFile_def)
qed

theorem C7_SetLogFile_failure_witness:
  "cannot_open wd0 ''/nodir/app.log''
   \<and> SetLogFile ''/nodir/app.log'' (Init cfgW initial) wd0
       = (Some (PathError ''/nodir/app.log''), Init cfgW initial, wd0)
   \<and> logger (fst (snd (SetLogFile ''/nodir/app.log'' (Init cfgW initial) wd0)))
       = Some (New (colorHandler (NewTextHandler (Some Stderr) (Some LevelWarn))))
   \<and> currentCfg (fst (snd (SetLogFile ''/nodir/app.log'' (Init cfgW initial) wd0))) = cfgW"
proof -
  have c: "cannot_open wd0 ''/nodir/app.log''" by (simp add: wd0_def)
  from C7_SetLogFile_failure [of wd0 "''/nodir/app.log''" "Init cfgW initial"] c
  have "SetLogFile ''/nodir/app.log'' (Init cfgW initial) wd0
       = (Some (PathError ''/nodir/app.log''), Init cfgW initial, wd0)"
    by simp
  with c show ?thesis by (simp add: Init_eq cfgW_def)
qed

text \<open>
  Claim C8 (as stated it fails): the logger derived by \<^verbatim>\<open>With(a).With(b)\<close> should emit
  records carrying both \<open>a\<close> and \<open>b\<close>. The formatters render no field for an attribute
  with empty key and nil value: after \<^verbatim>\<open>With(slog.Attr{})\<close> and \<^verbatim>\<open>With("k", "2")\<close> on
  the package logger, the line of an \<^verbatim>\<open>Info\<close> has the one field \<open>k\<close> and nothing of
  the first list.
\<close>

theorem C8_empty_attribute_counterexample:
  "With [('''', NilValue)] gJ =
     (Inr (Logger_With (New (NewJSONHandler (Some Stderr) (Some LevelDebug))) [('''', NilValue)]), gJ)
   \<and> written (Logger_log
        (Logger_With
           (Logger_With (New (NewJSONHandler (Some Stderr) (Some LevelDebug))) [('''', NilValue)])
           [(''k'', Scalar ''2'')])
        LevelInfo ''up'' [] wd0) Stderr =
     Some [\<lparr>e_json = True, e_time = 7, e_level = LevelInfo, e_msg = ''up'',
            e_fields = [([], ''k'', Scalar ''2'')]\<rparr>]
   \<and> written (Logger_log
        (Logger_With
           (Logger_With (New (NewJSONHandler (Some Stderr) (Some LevelDebug))) [('''', NilValue)])
           [(''k'', Scalar ''2'')])
        LevelInfo ''up'' [] wd0) Stderr \<noteq>
     Some [\<lparr>e_json = True, e_time = 7, e_level = LevelInfo, e_msg = ''up'',
            e_fields = [([], '''', NilValue), ([], ''k'', Scalar ''2'')]\<rparr>]"
proof -
  have w: "With [('''', NilValue)] gJ =
     (Inr (Logger_With (New (NewJSONHandler (Some Stderr) (Some LevelDebug))) [('''', NilValue)]), gJ)"
    by (simp add: With_def gJ_def get_def Let_def Init_eq cfgJ_def initial_def)
  have e: "written (Logger_log
        (Logger_With
           (Logger_With (New (NewJSONHandler (Some Stderr) (Some LevelDebug))) [('''', NilValue)])
           [(''k'', Scalar ''2'')])
        LevelInfo ''up'' [] wd0) Stderr =
     Some [\<lparr>e_json = True, e_time = 7, e_level = LevelInfo, e_msg = ''up'',
            e_fields = [([], ''k'', Scalar ''2'')]\<rparr>]"
    by (simp add: Logger_log_def Logger_With_def New_def NewJSONHandler_def
        common_withAttrs_eq common_enabled_def common_line_def appendAttrs_def isEmpty_def
        sink_write_def wd0_def LevelInfo_def LevelDebug_def)
  from w e show ?thesis by simp
qed

text \<open>
  Claim C8 (amended): the package-level \<^verbatim>\<open>With(a)\<close> returns the logger \<^verbatim>\<open>get\<close>
  returns, derived with \<open>a\<close>, and leaves that logger installed; \<^verbatim>\<open>get\<close> returns a
  logger in every state that has one installed once \<open>once\<close> has run. For every logger,
  the logger derived by \<^verbatim>\<open>With(a).With(b)\<close> emits, when the level is enabled, one line
  whose fields are the parent's bound fields, then the fields \<open>a\<close> renders to, then
  those of \<open>b\<close>, then those of the call's attributes, in this order and with nothing
  reordered or deduplicated; the parent emits the line with its bound fields and the
  call's attributes only. An attribute with empty key and nil value and a group
  without members render to no field, and a group renders to the fields of its
  members; lists of attributes that are neither empty nor groups are carried whole.
\<close>

theorem C8_With_fields_in_order:
  "(get g = (Some l, g') \<longrightarrow> With a g = (Inr (Logger_With l a), g') \<and> logger g' = Some l)
   \<and> ((once g \<longrightarrow> logger g \<noteq> None) \<longrightarrow> (\<exists>l0. get g = (Some l0, snd (get g))))
   \<and> Logger_log (Logger_With (Logger_With l a) b) L msg args wd =
     (if Enabled (Handler l) L
      then snd (sink_write (ch_w (common_of (Handler l)))
             \<lparr>e_json = formatter_JSON (Handler l), e_time = now wd, e_level = L,
              e_msg = shown_msg (Handler l) L msg,
              e_fields = ch_attrs (common_of (Handler l))
                         @ appendAttrs (ch_groups (common_of (Handler l))) a
                         @ appendAttrs (ch_groups (common_of (Handler l))) b
                         @ appendAttrs (ch_groups (common_of (Handler l))) args\<rparr> wd)
      else wd)
   \<and> Logger_log l L msg args wd =
     (if Enabled (Handler l) L
      then snd (sink_write (ch_w (common_of (Handler l)))
             \<lparr>e_json = formatter_JSON (Handler l), e_time = now wd, e_level = L,
              e_msg = shown_msg (Handler l) L msg,
              e_fields = ch_attrs (common_of (Handler l))
                         @ appendAttrs (ch_groups (common_of (Handler l))) args\<rparr> wd)
      else wd)
   \<and> ((\<forall>x \<in> set (a @ b @ args). plain x) \<longrightarrow>
        appendAttrs p a @ appendAttrs p b @ appendAttrs p args
          = map (\<lambda>x. (p, fst x, snd x)) (a @ b @ args))"
proof -
  let ?child = "Logger_With (Logger_With l a) b"
  let ?c = "common_of (Handler l)"
  have pkg: "get g = (Some l, g') \<longrightarrow> With a g = (Inr (Logger_With l a), g') \<and> logger g' = Some l"
  proof
    assume gt: "get g = (Some l, g')"
    then have "With a g = (Inr (Logger_With l a), g')"
      by (simp add: With_def)
    moreover from gt have "logger g' = Some l"
      by (auto simp add: get_def Let_def)
    ultimately show "With a g = (Inr (Logger_With l a), g') \<and> logger g' = Some l" ..
  qed
  have tot: "(once g \<longrightarrow> logger g \<noteq> None) \<longrightarrow> (\<exists>l0. get g = (Some l0, snd (get g)))"
  proof
    assume "once g \<longrightarrow> logger g \<noteq> None"
    then have "fst (get g) \<noteq> None" by (rule get_not_nil)
    then obtain l0 where "fst (get g) = Some l0" by auto
    then have "get g = (Some l0, snd (get g))" by (simp add: prod_eq_iff)
    then show "\<exists>l0. get g = (Some l0, snd (get g))" ..
  qed
  have c: "common_of (Handler ?child) = common_withAttrs (common_withAttrs ?c a) b"
    by (simp only: common_of_Logger_With)
  have child: "Logger_log ?child L msg args wd =
     (if Enabled (Handler l) L
      then snd (sink_write (ch_w ?c)
             \<lparr>e_json = formatter_JSON (Handler l), e_time = now wd, e_level = L,
              e_msg = shown_msg (Handler l) L msg,
              e_fields = ch_attrs ?c @ appendAttrs (ch_groups ?c) a
                         @ appendAttrs (ch_groups ?c) b
                         @ appendAttrs (ch_groups ?c) args\<rparr> wd)
      else wd)"
    unfolding Logger_log_line [of ?child] c
    by (simp add: Enabled_Logger_With formatter_JSON_Logger_With shown_msg_Logger_With
        common_withAttrs_eq)
  have whole: "(\<forall>x \<in> set (a @ b @ args). plain x) \<longrightarrow>
        appendAttrs p a @ appendAttrs p b @ appendAttrs p args
          = map (\<lambda>x. (p, fst x, snd x)) (a @ b @ args)"
  proof
    assume "\<forall>x \<in> set (a @ b @ args). plain x"
    then have "appendAttrs p (a @ b @ args) = map (\<lambda>x. (p, fst x, snd x)) (a @ b @ args)"
      by (rule appendAttrs_plain)
    then show "appendAttrs p a @ appendAttrs p b @ appendAttrs p args
          = map (\<lambda>x. (p, fst x, snd x)) (a @ b @ args)"
      by (simp only: appendAttrs_append)
  qed
  from pkg tot child whole Logger_log_line [of l L msg args wd]
  show ?thesis by blast
qed

theorem C8_With_fields_in_order_witness:
  "get gJ = (Some (New (NewJSONHandler (Some Stderr) (Some LevelDebug))), gJ)
   \<and> With [(''k'', Scalar ''1'')] gJ =
       (Inr (Logger_With (New (NewJSONHandler (Some Stderr) (Some LevelDebug)))
               [(''k'', Scalar ''1'')]), gJ)
   \<and> logger gJ = Some (New (NewJSONHandler (Some Stderr) (Some LevelDebug)))
   \<and> written (Logger_log
        (Logger_With
           (Logger_With (New (NewJSONHandler (Some Stderr) (Some LevelDebug)))
              [(''k'', Scalar ''1'')])
           [(''k'', Scalar ''2''), (''g'', Group [(''j'', Scalar ''3''), ('''', NilValue)])])
        LevelInfo ''up'' [(''k'', Scalar ''4'')] wd0) Stderr =
     Some [\<lparr>e_json = True, e_time = 7, e_level = LevelInfo, e_msg = ''up'',
            e_fields = [([], ''k'', Scalar ''1''), ([], ''k'', Scalar ''2''),
                        ([''g''], ''j'', Scalar ''3''), ([], ''k'', Scalar ''4'')]\<rparr>]
   \<and> written (Logger_log (New (NewJSONHandler (Some Stderr) (Some LevelDebug)))
        LevelInfo ''up'' [(''k'', Scalar ''4'')] wd0) Stderr =
     Some [\<lparr>e_json = True, e_time = 7, e_level = LevelInfo, e_msg = ''up'',
            e_fields = [([], ''k'', Scalar ''4'')]\<rparr>]
   \<and> (\<exists>l0. get gJ = (Some l0, snd (get gJ)))
   \<and> appendAttrs [] [(''k'', Scalar ''1'')] @ appendAttrs [] [(''k'', Scalar ''2'')]
        @ appendAttrs [] [(''k'', Scalar ''4'')]
       = [([], ''k'', Scalar ''1''), ([], ''k'', Scalar ''2''), ([], ''k'', Scalar ''4'')]"
proof -
  let ?l = "New (NewJSONHandler (Some Stderr) (Some LevelDebug))"
  have gt: "get gJ = (Some ?l, gJ)"
    by (simp add: gJ_def get_def Let_def Init_eq cfgJ_def initial_def)
  have inst: "once gJ \<longrightarrow> logger gJ \<noteq> None"
    by (simp add: gJ_def Init_eq)
  have pl: "\<forall>x \<in> set ([(''k'', Scalar ''1'')] @ [(''k'', Scalar ''2'')] @ [(''k'', Scalar ''4'')]). plain x"
    by simp
  from C8_With_fields_in_order [of gJ ?l gJ "[(''k'', Scalar ''1'')]"
      "[(''k'', Scalar ''2''), (''g'', Group [(''j'', Scalar ''3''), ('''', NilValue)])]"
      LevelInfo "''up''" "[(''k'', Scalar ''4'')]" wd0 "[]"] gt inst
  have first: "With [(''k'', Scalar ''1'')] gJ = (Inr (Logger_With ?l [(''k'', Scalar ''1'')]), gJ)"
    and inst': "logger gJ = Some ?l"
    and total: "\<exists>l0. get gJ = (Some l0, snd (get gJ))"
    and child: "written (Logger_log
        (Logger_With (Logger_With ?l [(''k'', Scalar ''1'')])
           [(''k'', Scalar ''2''), (''g'', Group [(''j'', Scalar ''3''), ('''', NilValue)])])
        LevelInfo ''up'' [(''k'', Scalar ''4'')] wd0) Stderr =
     Some [\<lparr>e_json = True, e_time = 7, e_level = LevelInfo, e_msg = ''up'',
            e_fields = [([], ''k'', Scalar ''1''), ([], ''k'', Scalar ''2''),
                        ([''g''], ''j'', Scalar ''3''), ([], ''k'', Scalar ''4'')]\<rparr>]"
    and parent: "written (Logger_log ?l LevelInfo ''up'' [(''k'', Scalar ''4'')] wd0) Stderr =
     Some [\<lparr>e_json = True, e_time = 7, e_level = LevelInfo, e_msg = ''up'',
            e_fields = [([], ''k'', Scalar ''4'')]\<rparr>]"
    by (simp_all add: New_def NewJSONHandler_def common_enabled_def sink_write_def wd0_def
        appendAttrs_def isEmpty_def LevelInfo_def LevelDebug_def)
  from C8_With_fields_in_order [of gJ ?l gJ "[(''k'', Scalar ''1'')]" "[(''k'', Scalar ''2'')]"
      LevelInfo "''up''" "[(''k'', Scalar ''4'')]" wd0 "[]"] pl
  have whole: "appendAttrs [] [(''k'', Scalar ''1'')] @ appendAttrs [] [(''k'', Scalar ''2'')]
        @ appendAttrs [] [(''k'', Scalar ''4'')]
       = [([], ''k'', Scalar ''1''), ([], ''k'', Scalar ''2''), ([], ''k'', Scalar ''4'')]"
    by simp
  from gt first inst' child parent total whole show ?thesis by simp
qed

text \<open>
  Claim C10: when no \<^verbatim>\<open>Init\<close> has run (the remembered configuration is still the zero
  \<^verbatim>\<open>Config{}\<close>) and the file at \<open>p\<close> opens, \<^verbatim>\<open>SetLogFile(p)\<close> returns no error and
  installs the text logger at level Info, without colour, writing to the file; the
  remembered configuration becomes level Info, text format, no colour, with the file
  as its sink; and the file exists afterwards with the contents it had.
\<close>

theorem C10_SetLogFile_before_Init:
  assumes "currentCfg g = currentCfg initial" and "\<not> cannot_open wd p"
  shows "SetLogFile p g wd =
     (None,
      g\<lparr>logger := Some (New (NewTextHandler (Some (FileW p)) (Some LevelInfo))),
        currentCfg := \<lparr>Level = Some LevelInfo, JSON = False, Out = Some (FileW p), Color = False\<rparr>\<rparr>,
      wd\<lparr>written := (written wd)(FileW p \<mapsto>
            (case written wd (FileW p) of None \<Rightarrow> [] | Some es \<Rightarrow> es))\<rparr>)"
proof -
  from assms(1) have zero: "Out (currentCfg g) = None \<and> Level (currentCfg g) = None"
    by (simp add: initial_def)
  have "Init (defaultCfg\<lparr>Out := Some (FileW p)\<rparr>) g =
      g\<lparr>logger := Some (New (NewTextHandler (Some (FileW p)) (Some LevelInfo))),
        currentCfg := \<lparr>Level = Some LevelInfo, JSON = False, Out = Some (FileW p), Color = False\<rparr>\<rparr>"
    by (simp add: Init_eq defaultCfg_def)
  with zero assms(2) show ?thesis
    by (simp add: SetLogFile_ok)
qed

theorem C10_SetLogFile_before_Init_witness:
  "currentCfg initial = currentCfg initial
   \<and> \<not> cannot_open wd0 ''app.log''
   \<and> SetLogFile ''app.log'' initial wd0 =
     (None,
      \<lparr>logger = Some (New (NewTextHandler (Some (FileW ''app.log'')) (Some LevelInfo))),
       once = False,
       currentCfg = \<lparr>Level = Some LevelInfo, JSON = False, Out = Some (FileW ''app.log''),
                     Color = False\<rparr>\<rparr>,
      wd0\<lparr>written := [Stdout \<mapsto> [], Stderr \<mapsto> [], FileW ''app.log'' \<mapsto> []]\<rparr>)"
proof -
  have o: "\<not> cannot_open wd0 ''app.log''" by (simp add: wd0_def)
  from C10_SetLogFile_before_Init [OF refl o] o
  show ?thesis by (simp add: initial_def wd0_def)
qed

end
